theory Spec2Isabelle
  imports Complex_Main "HOL-Library.AList"
begin

section \<open>The Wyckoff markup scanner (nse\_wyckoff\_scanner.py)\<close>

text \<open>
  The program has three functions: \<^verbatim>\<open>get_nse_symbol_list\<close> (the symbol source),
  \<^verbatim>\<open>detect_markup\<close> (the classifier) and \<^verbatim>\<open>main\<close> (the driver loop).  Each is
  embedded below as a HOL function of its inputs; what the program reads from the
  network is an explicit argument.

  Numbers.  The cells of a pandas frame are IEEE doubles.  A finite double is the real
  number it denotes, so a cell is a real, and comparisons and the maximum of a column,
  which round nothing, are those of the reals.  Every step that rounds (reading a
  decimal literal, a sum, a product, the mean of a column) goes through an arithmetic
  \<open>ar\<close>, an argument of the classifier: \<open>rnd ar\<close> rounds the exact result of one
  step and \<open>mean_of ar\<close> is \<^verbatim>\<open>col.mean()\<close>.  The arithmetic \<open>exact\<close> rounds
  nothing; \<open>ieee\<close> rounds to the nearest double.  The value NaN, which pandas
  returns for the maximum or the mean of an empty column, is \<open>None\<close> of an option
  type.

  Exceptions.  A Python expression that can raise is a value of type \<open>exn + 'a\<close>, with
  \<open>Inl\<close> the exception raised; \<^verbatim>\<open>try: ... except Exception\<close> is \<open>try_except\<close>.

  Left out: the progress lines printed, the pause between two symbols, and the writing
  of the two JSON files, whose contents are the pair that \<open>main\<close> returns.
\<close>

subsection \<open>Exceptions\<close>

datatype exn =
    IndexError
  | KeyError
  | TypeError
  | AttributeError
  | JSONDecodeError
  | ConnectionError
  | Timeout
  | OtherError

definition try_except :: "exn + 'a \<Rightarrow> (exn \<Rightarrow> exn + 'a) \<Rightarrow> exn + 'a" where
  "try_except body handler = (case body of Inl e \<Rightarrow> handler e | Inr v \<Rightarrow> Inr v)"

definition bind_exn :: "exn + 'a \<Rightarrow> ('a \<Rightarrow> exn + 'b) \<Rightarrow> exn + 'b" where
  "bind_exn m f = (case m of Inl e \<Rightarrow> Inl e | Inr v \<Rightarrow> f v)"

subsection \<open>Configuration constants\<close>

text \<open>The constants as the source writes them; \<^verbatim>\<open>0.05\<close> and \<^verbatim>\<open>1.5\<close> are decimal
  literals, which the arithmetic reads.\<close>

definition ACCUMULATION_RANGE :: nat where
  "ACCUMULATION_RANGE = 30"

definition BREAKOUT_THRESHOLD :: real where
  "BREAKOUT_THRESHOLD = 5 / 100"

definition VOLUME_MULTIPLIER :: real where
  "VOLUME_MULTIPLIER = 15 / 10"

subsection \<open>Arithmetic\<close>

record arith =
  rnd :: "real \<Rightarrow> real"
  mean_of :: "real list \<Rightarrow> real"

text \<open>Arithmetic without rounding.\<close>

definition exact :: arith where
  "exact = \<lparr>rnd = (\<lambda>x. x), mean_of = (\<lambda>col. sum_list col / real (length col))\<rparr>"

text \<open>
  Rounding to the nearest double, ties to the even significand: 53 significant bits,
  exponents from \<open>-1022\<close>, below which the spacing stays \<open>2 powi (-1074)\<close>.  It is
  meant for magnitudes below \<open>2 powi 1024\<close>, where a double is finite.  The exponent
  of \<open>x > 0\<close> is the \<open>e\<close> with \<open>2 powi e \<le> x < 2 powi (e + 1)\<close>, found by
  halving from above or doubling from below.
\<close>

function exponent_up :: "real \<Rightarrow> int" where
  "exponent_up x = (if 2 \<le> x then exponent_up (x / 2) + 1 else 0)"
  by pat_completeness auto
termination
proof (relation "measure (\<lambda>x. nat \<lfloor>x\<rfloor>)")
  show "wf (measure (\<lambda>x. nat \<lfloor>x\<rfloor>))" by simp
next
  fix x :: real
  assume "2 \<le> x"
  then have "\<lfloor>x / 2\<rfloor> < \<lfloor>x\<rfloor>" and "0 < \<lfloor>x\<rfloor>" by linarith+
  then show "(x / 2, x) \<in> measure (\<lambda>x. nat \<lfloor>x\<rfloor>)" by simp
qed

function exponent_down :: "real \<Rightarrow> int" where
  "exponent_down x = (if 0 < x \<and> x < 1 then exponent_down (2 * x) - 1 else 0)"
  by pat_completeness auto
termination
proof (relation "measure (\<lambda>x. nat \<lceil>1 / x\<rceil>)")
  show "wf (measure (\<lambda>x. nat \<lceil>1 / x\<rceil>))" by simp
next
  fix x :: real
  assume x: "0 < x \<and> x < 1"
  define y where "y = 1 / x"
  from x have y: "1 < y" by (simp add: y_def)
  have half: "1 / (2 * x) = y / 2" by (simp add: y_def)
  define a where "a = real_of_int \<lceil>y\<rceil>"
  have "y \<le> a" unfolding a_def by (rule le_of_int_ceiling)
  moreover from y have "2 \<le> \<lceil>y\<rceil>" by linarith
  then have "2 \<le> a" by (simp add: a_def)
  ultimately have "y / 2 \<le> a - 1" by linarith
  then have "y / 2 \<le> real_of_int (\<lceil>y\<rceil> - 1)" by (simp add: a_def)
  then have "\<lceil>y / 2\<rceil> < \<lceil>y\<rceil>" by (simp only: ceiling_less_iff)
  moreover from y have "0 < \<lceil>y\<rceil>" by linarith
  ultimately show "(2 * x, x) \<in> measure (\<lambda>x. nat \<lceil>1 / x\<rceil>)"
    by (simp add: half flip: y_def)
qed

definition exponent :: "real \<Rightarrow> int" where
  "exponent x = (if 1 \<le> x then exponent_up x else exponent_down x)"

definition round_half_even :: "real \<Rightarrow> int" where
  "round_half_even q =
     (let f = \<lfloor>q\<rfloor>; d = q - real_of_int f
      in if d < 1 / 2 then f else if 1 / 2 < d then f + 1 else if even f then f else f + 1)"

definition binary64 :: "real \<Rightarrow> real" where
  "binary64 x =
     (if x = 0 then 0
      else
        let e = max (exponent \<bar>x\<bar>) (- 1022);
            ulp = 2 powi (e - 52)
        in real_of_int (round_half_even (x / ulp)) * ulp)"

text \<open>
  Double arithmetic.  The mean adds the cells one after the other and divides by their
  number, rounding each step.  pandas adds in an order of its own; on a column of
  integers whose sum is below \<open>2 ^ 53\<close>, as volumes are, no sum rounds in any order,
  and the mean is the rounded quotient.
\<close>

definition ieee :: arith where
  "ieee =
     \<lparr>rnd = binary64,
      mean_of = (\<lambda>col. binary64 (foldl (\<lambda>s x. binary64 (s + x)) 0 col / real (length col)))\<rparr>"

subsection \<open>Frames of daily bars\<close>

text \<open>
  One row of a frame: the date index and the cells of the five columns
  \<^verbatim>\<open>Open, High, Low, Close, Volume\<close>.  A list of rows, oldest first, is a frame that
  has all five columns.
\<close>

record bar =
  date :: nat
  "open" :: real
  high :: real
  low :: real
  close :: real
  volume :: real

type_synonym frame = "bar list"

text \<open>
  The frame \<^verbatim>\<open>detect_markup\<close> is called with may lack some of the columns:
  \<open>df_columns df\<close> are the labels it has and \<open>df_rows df\<close> its rows.  The cells of a
  row under a label the frame does not have are never read.
\<close>

datatype column = Open | High | Low | Close | Volume

primrec cell :: "column \<Rightarrow> bar \<Rightarrow> real" where
  "cell Open = open"
| "cell High = high"
| "cell Low = low"
| "cell Close = close"
| "cell Volume = volume"

record dataframe =
  df_columns :: "column list"
  df_rows :: "bar list"

definition frame_of :: "frame \<Rightarrow> dataframe" where
  "frame_of bars = \<lparr>df_columns = [Open, High, Low, Close, Volume], df_rows = bars\<rparr>"

text \<open>\<^verbatim>\<open>len(df)\<close>.\<close>

definition len :: "dataframe \<Rightarrow> nat" where
  "len df = length (df_rows df)"

text \<open>\<^verbatim>\<open>df[label]\<close>: the column, oldest cell first; KeyError when the frame has no such
  column.\<close>

definition getitem :: "dataframe \<Rightarrow> column \<Rightarrow> exn + real list" where
  "getitem df label =
     (if label \<in> set (df_columns df) then Inr (map (cell label) (df_rows df))
      else Inl KeyError)"

text \<open>\<^verbatim>\<open>df[-n:]\<close> for \<open>n > 0\<close>: the last \<open>n\<close> rows, all of them when there are fewer.\<close>

definition tail_rows :: "nat \<Rightarrow> 'a list \<Rightarrow> 'a list" where
  "tail_rows n df = drop (length df - n) df"

definition slice_tail :: "nat \<Rightarrow> dataframe \<Rightarrow> dataframe" where
  "slice_tail n df = df\<lparr>df_rows := tail_rows n (df_rows df)\<rparr>"

text \<open>\<^verbatim>\<open>col.iloc[-1]\<close>: the last entry; IndexError on an empty column.\<close>

definition iloc_last :: "'a list \<Rightarrow> exn + 'a" where
  "iloc_last col = (if col = [] then Inl IndexError else Inr (last col))"

text \<open>\<^verbatim>\<open>col.max()\<close> and \<^verbatim>\<open>col.mean()\<close>: NaN (\<open>None\<close>) on an empty column.\<close>

definition col_max :: "real list \<Rightarrow> real option" where
  "col_max col = (if col = [] then None else Some (fold max (tl col) (hd col)))"

definition col_mean :: "arith \<Rightarrow> real list \<Rightarrow> real option" where
  "col_mean ar col = (if col = [] then None else Some (mean_of ar col))"

text \<open>\<^verbatim>\<open>x * c\<close> and \<^verbatim>\<open>a > x\<close> where \<open>x\<close> may be NaN: NaN propagates through the
  product, which is rounded, and every comparison with NaN is false.\<close>

definition nan_times :: "arith \<Rightarrow> real option \<Rightarrow> real \<Rightarrow> real option" where
  "nan_times ar x c = (case x of None \<Rightarrow> None | Some v \<Rightarrow> Some (rnd ar (v * c)))"

definition gt_nan :: "real \<Rightarrow> real option \<Rightarrow> bool" where
  "gt_nan a x = (case x of None \<Rightarrow> False | Some v \<Rightarrow> v < a)"

subsection \<open>detect\_markup\<close>

text \<open>
  \<^verbatim>\<open>all(col.iloc[i] >= col.iloc[i-1] for i in range(1, len(col)))\<close>.
  Every index is in range, so no read fails.
\<close>

definition non_decreasing :: "real list \<Rightarrow> bool" where
  "non_decreasing col = list_all (\<lambda>i. col ! (i - 1) \<le> col ! i) [1..<length col]"

text \<open>
  The body of the \<^verbatim>\<open>try\<close> block, statement by statement.  \<^verbatim>\<open>1 + BREAKOUT_THRESHOLD\<close>
  reads the literal and rounds the sum.  In the trend check the columns are looked up
  inside the two loops, which run at least once there, the window having 2 rows or more.
\<close>

definition detect_markup_try :: "arith \<Rightarrow> dataframe \<Rightarrow> exn + bool" where
  "detect_markup_try ar df =
     (if len df < ACCUMULATION_RANGE then Inr False
      else
        let recent = slice_tail ACCUMULATION_RANGE df
        in bind_exn (getitem recent High) (\<lambda>recent_high.
        let acc_high = col_max recent_high
        in bind_exn (getitem df Close) (\<lambda>df_close.
        bind_exn (iloc_last df_close) (\<lambda>last_close.
        let breakout =
              gt_nan last_close
                (nan_times ar acc_high (rnd ar (1 + rnd ar BREAKOUT_THRESHOLD)))
        in bind_exn (getitem recent Volume) (\<lambda>recent_volume.
        let avg_vol = col_mean ar recent_volume
        in bind_exn (getitem df Volume) (\<lambda>df_volume.
        bind_exn (iloc_last df_volume) (\<lambda>last_volume.
        let vol_breakout =
              gt_nan last_volume (nan_times ar avg_vol (rnd ar VOLUME_MULTIPLIER));
            recent_10 = slice_tail 10 df
        in if len recent_10 < 2 then Inr (breakout \<and> vol_breakout)
           else
             bind_exn (getitem recent_10 High) (\<lambda>recent_10_high.
             let higher_highs = non_decreasing recent_10_high
             in bind_exn (getitem recent_10 Low) (\<lambda>recent_10_low.
             let higher_lows = non_decreasing recent_10_low
             in Inr (breakout \<and> vol_breakout \<and> (higher_highs \<or> higher_lows)))))))))))"

text \<open>\<^verbatim>\<open>except Exception\<close>: print a note, return False.\<close>

definition detect_markup_df :: "arith \<Rightarrow> dataframe \<Rightarrow> exn + bool" where
  "detect_markup_df ar df = try_except (detect_markup_try ar df) (\<lambda>e. Inr False)"

text \<open>The function on a frame that has all five columns, in arithmetic without
  rounding.\<close>

definition detect_markup :: "frame \<Rightarrow> exn + bool" where
  "detect_markup df = detect_markup_df exact (frame_of df)"

subsection \<open>get\_nse\_symbol\_list\<close>

text \<open>
  What \<^verbatim>\<open>r.json()\<close> can return: the Python value of a JSON document.  An object is the
  list of its items (keys distinct, as in a parsed dict).
\<close>

datatype json =
    JNull
  | JBool bool
  | JNum real
  | JStr string
  | JArr "json list"
  | JObj "(string \<times> json) list"

text \<open>The body of an HTTP response: \<^verbatim>\<open>r.json()\<close> raises on a body that is not JSON.\<close>

datatype body = NotJSON | JSON json

definition response_json :: "body \<Rightarrow> exn + json" where
  "response_json r = (case r of NotJSON \<Rightarrow> Inl JSONDecodeError | JSON j \<Rightarrow> Inr j)"

text \<open>\<^verbatim>\<open>x.get(key, default)\<close>: only a dict has the method.\<close>

definition dict_get :: "json \<Rightarrow> string \<Rightarrow> json \<Rightarrow> exn + json" where
  "dict_get x key dflt =
     (case x of
        JObj items \<Rightarrow> Inr (case map_of items key of None \<Rightarrow> dflt | Some v \<Rightarrow> v)
      | _ \<Rightarrow> Inl AttributeError)"

text \<open>\<^verbatim>\<open>x[key]\<close> with a string key.\<close>

definition subscript :: "json \<Rightarrow> string \<Rightarrow> exn + json" where
  "subscript x key =
     (case x of
        JObj items \<Rightarrow> (case map_of items key of None \<Rightarrow> Inl KeyError | Some v \<Rightarrow> Inr v)
      | _ \<Rightarrow> Inl TypeError)"

text \<open>The truth value of a Python value, as \<^verbatim>\<open>if\<close> tests it.\<close>

definition truthy :: "json \<Rightarrow> bool" where
  "truthy x =
     (case x of
        JNull \<Rightarrow> False
      | JBool b \<Rightarrow> b
      | JNum n \<Rightarrow> n \<noteq> 0
      | JStr s \<Rightarrow> s \<noteq> []
      | JArr xs \<Rightarrow> xs \<noteq> []
      | JObj items \<Rightarrow> items \<noteq> [])"

text \<open>\<^verbatim>\<open>for item in x\<close>: a list gives its elements, a dict its keys, a string its
  characters; nothing else is iterable.\<close>

definition iterate :: "json \<Rightarrow> exn + json list" where
  "iterate x =
     (case x of
        JArr xs \<Rightarrow> Inr xs
      | JObj items \<Rightarrow> Inr (map (\<lambda>kv. JStr (fst kv)) items)
      | JStr s \<Rightarrow> Inr (map (\<lambda>c. JStr [c]) s)
      | _ \<Rightarrow> Inl TypeError)"

text \<open>\<^verbatim>\<open>x + ".NS"\<close>: defined for a string \<open>x\<close> only.\<close>

definition add_str :: "json \<Rightarrow> string \<Rightarrow> exn + string" where
  "add_str x t = (case x of JStr s \<Rightarrow> Inr (s @ t) | _ \<Rightarrow> Inl TypeError)"

text \<open>
  The comprehension
  \<^verbatim>\<open>[item["symbol"] + ".NS" for item in ... if item.get("symbol")]\<close>
  over the items, left to right; the first exception ends it.
\<close>

fun symbols_of_items :: "json list \<Rightarrow> exn + string list" where
  "symbols_of_items [] = Inr []"
| "symbols_of_items (item # items) =
     bind_exn (dict_get item ''symbol'' JNull) (\<lambda>v.
       if truthy v then
         bind_exn (subscript item ''symbol'') (\<lambda>s.
         bind_exn (add_str s ''.NS'') (\<lambda>ticker.
         bind_exn (symbols_of_items items) (\<lambda>rest. Inr (ticker # rest))))
       else symbols_of_items items)"

text \<open>
  The two requests of the session, as the outcomes the function sees:
  \<open>home_get\<close> is the cookie request (its response is not used), \<open>index_get\<close> the
  request for the index.  A request raises (no connection, timeout) or returns a
  response, whatever its status code.
\<close>

record nse_site =
  home_get :: "exn + unit"
  index_get :: "exn + body"

text \<open>The body of the \<^verbatim>\<open>try\<close> block.\<close>

definition fetch_symbols :: "nse_site \<Rightarrow> exn + string list" where
  "fetch_symbols site =
     bind_exn (home_get site) (\<lambda>_.
     bind_exn (index_get site) (\<lambda>r.
     bind_exn (response_json r) (\<lambda>data.
     bind_exn (dict_get data ''data'' (JArr [])) (\<lambda>listing.
     bind_exn (iterate listing) symbols_of_items))))"

definition FALLBACK :: "string list" where
  "FALLBACK = [''RELIANCE.NS'', ''TCS.NS'', ''HDFCBANK.NS'', ''INFY.NS'', ''LT.NS'']"

definition get_nse_symbol_list :: "nse_site \<Rightarrow> exn + string list" where
  "get_nse_symbol_list site = try_except (fetch_symbols site) (\<lambda>e. Inr FALLBACK)"

subsection \<open>main\<close>

text \<open>
  A row as \<^verbatim>\<open>yf.download\<close> returns it: a cell may be missing (NaN).
  \<^verbatim>\<open>df[["Open", "High", "Low", "Close", "Volume"]].dropna()\<close> keeps the rows with
  all five cells present.
\<close>

record raw_bar =
  raw_date :: nat
  raw_open :: "real option"
  raw_high :: "real option"
  raw_low :: "real option"
  raw_close :: "real option"
  raw_volume :: "real option"

definition complete_row :: "raw_bar \<Rightarrow> bar option" where
  "complete_row r =
     (case (raw_open r, raw_high r, raw_low r, raw_close r, raw_volume r) of
        (Some o', Some h, Some l, Some c, Some v) \<Rightarrow>
          Some \<lparr>date = raw_date r, open = o', high = h, low = l, close = c, volume = v\<rparr>
      | _ \<Rightarrow> None)"

definition dropna :: "raw_bar list \<Rightarrow> frame" where
  "dropna rows = List.map_filter complete_row rows"

text \<open>
  \<^verbatim>\<open>s.replace(old, new)\<close>: every occurrence of \<open>old\<close>, found left to right without
  overlap, becomes \<open>new\<close> (with an empty \<open>old\<close>, \<open>new\<close> goes before every
  character and at the end).
\<close>

function str_replace :: "string \<Rightarrow> string \<Rightarrow> string \<Rightarrow> string" where
  "str_replace old new [] = (if old = [] then new else [])"
| "str_replace old new (c # cs) =
     (if old = [] then new @ c # str_replace old new cs
      else if take (length old) (c # cs) = old
        then new @ str_replace old new (drop (length old) (c # cs))
        else c # str_replace old new cs)"
  by pat_completeness auto
termination
  by (relation "measure (\<lambda>(old, new, s). length s)") auto

text \<open>
  The state of the loop: the list \<^verbatim>\<open>markup_candidates\<close> and the dict
  \<^verbatim>\<open>markup_data\<close>, a list of items in insertion order (an assignment to a key
  already present replaces its value in place, as \<open>AList.update\<close> does).
\<close>

type_synonym scan_state = "string list \<times> (string \<times> frame) list"

text \<open>
  One iteration for the \<open>i\<close>-th symbol (\<^verbatim>\<open>sym\<close> in the source, \<open>ticker\<close>
  here), in the arithmetic \<open>ar\<close>.  \<open>download i ticker\<close> is what
  \<^verbatim>\<open>yf.download(sym, ...)\<close> does at that call: it raises or returns a frame.  The
  frame handed to \<^verbatim>\<open>detect_markup\<close> has the five columns selected.  An
  exception anywhere in the \<^verbatim>\<open>try\<close> block is printed and the state stays as it is;
  so it does on an empty frame (\<^verbatim>\<open>continue\<close>).  Building the records with
  \<^verbatim>\<open>df.reset_index().to_dict(orient="records")\<close> reads nothing outside and keeps the
  rows, which stand for the records here.
\<close>

definition scan_symbol ::
  "arith \<Rightarrow> (nat \<Rightarrow> string \<Rightarrow> exn + raw_bar list) \<Rightarrow> nat \<Rightarrow> string \<Rightarrow> scan_state
     \<Rightarrow> scan_state" where
  "scan_symbol ar download i ticker st =
     (case download i ticker of
        Inl e \<Rightarrow> st
      | Inr raw \<Rightarrow>
          if raw = [] then st
          else
            let df = dropna raw in
            (case detect_markup_df ar (frame_of df) of
               Inl e \<Rightarrow> st
             | Inr flagged \<Rightarrow>
                 if flagged then
                   let name = str_replace ''.NS'' [] ticker
                   in (fst st @ [name], AList.update name df (snd st))
                 else st))"

text \<open>\<^verbatim>\<open>for i, sym in enumerate(symbols, 1)\<close>.\<close>

fun scan_loop ::
  "arith \<Rightarrow> (nat \<Rightarrow> string \<Rightarrow> exn + raw_bar list) \<Rightarrow> nat \<Rightarrow> string list \<Rightarrow> scan_state
     \<Rightarrow> scan_state" where
  "scan_loop ar download i [] st = st"
| "scan_loop ar download i (ticker # tickers) st =
     scan_loop ar download (Suc i) tickers (scan_symbol ar download i ticker st)"

record scan_summary =
  timestamp :: string
  total_scanned :: nat
  markup_count :: nat
  markup_candidates :: "string list"

text \<open>
  What a run depends on: the symbol site, the price provider, the clock
  (\<^verbatim>\<open>datetime.utcnow().isoformat()\<close>), and the arithmetic of the machine.
\<close>

record world =
  arithmetic :: arith
  nse :: nse_site
  yf_download :: "nat \<Rightarrow> string \<Rightarrow> exn + raw_bar list"
  utcnow :: string

text \<open>
  \<^verbatim>\<open>main\<close> up to the two documents it writes: the summary and the markup dataset.
\<close>

definition main :: "world \<Rightarrow> exn + scan_summary \<times> (string \<times> frame) list" where
  "main w =
     bind_exn (get_nse_symbol_list (nse w)) (\<lambda>symbols.
       let st = scan_loop (arithmetic w) (yf_download w) 1 symbols ([], []);
           summary = \<lparr>timestamp = utcnow w @ ''Z'',
                      total_scanned = length symbols,
                      markup_count = length (fst st),
                      markup_candidates = fst st\<rparr>
       in Inr (summary, snd st))"

subsection \<open>Example inputs\<close>

text \<open>
  A frame of 30 rows: lows at 100; highs at 100 for 20 rows, then 91, 92, ..., 100;
  closes at 100 except the last one, which is \<open>c\<close>; volumes \<open>v\<close> except the last
  one, which is \<open>vl\<close>.
\<close>

definition base_frame :: "real \<Rightarrow> real \<Rightarrow> real \<Rightarrow> frame" where
  "base_frame c v vl =
     map (\<lambda>i. \<lparr>date = i, open = 100,
                high = (if i < 20 then 100 else 71 + real i), low = 100,
                close = (if i = 29 then c else 100),
                volume = (if i = 29 then vl else v)\<rparr>) [0..<30]"

text \<open>The scenario with a last volume of 29 against 9 before: the 30-row mean is 29/3.\<close>

definition scenario_frame :: frame where
  "scenario_frame = base_frame 106 9 29"

text \<open>The same prices on a symbol that did not trade: every volume is 0.\<close>

definition zero_volume_frame :: frame where
  "zero_volume_frame = base_frame 106 0 0"



text \<open>
  A frame of 30 rows with the scenario's closes and volumes whose highs alternate
  between 100 and 99 and whose lows alternate between 90 and 89.
\<close>

definition choppy_frame :: frame where
  "choppy_frame =
     map (\<lambda>i. \<lparr>date = i, open = 95,
                high = (if even i then 100 else 99), low = (if even i then 90 else 89),
                close = (if i = 29 then 106 else 95),
                volume = (if i = 29 then 29 else 9)\<rparr>) [0..<30]"

text \<open>
  A frame of 30 rows with highs at 104 and, as its last close, the double nearest
  109.2, which lies above 109.2; volumes as in the scenario.
\<close>

definition rounding_frame :: frame where
  "rounding_frame =
     map (\<lambda>i. \<lparr>date = i, open = 100, high = 104, low = 100,
                close = (if i = 29 then 7684266864200909 / 2 ^ 46 else 100),
                volume = (if i = 29 then 29 else 9)\<rparr>) [0..<30]"

text \<open>The scenario's rows in a frame that has no \<^verbatim>\<open>High\<close> column.\<close>

definition no_high_frame :: dataframe where
  "no_high_frame = \<lparr>df_columns = [Open, Low, Close, Volume], df_rows = scenario_frame\<rparr>"

text \<open>The scenario with highs that rise from 101 to 110 over the last 10 rows.\<close>

definition rising_frame :: frame where
  "rising_frame =
     map (\<lambda>i. \<lparr>date = i, open = 100,
                high = (if i < 20 then 100 else 81 + real i), low = 100,
                close = (if i = 29 then 106 else 100),
                volume = (if i = 29 then 29 else 9)\<rparr>) [0..<30]"

text \<open>The site answers both requests; the index body is the JSON object
  \<^verbatim>\<open>{"error": "blocked"}\<close>, which has no \<^verbatim>\<open>data\<close> field.\<close>

definition no_data_site :: nse_site where
  "no_data_site =
     \<lparr>home_get = Inr (), index_get = Inr (JSON (JObj [(''error'', JStr ''blocked'')]))\<rparr>"

text \<open>The site cannot be reached: the first request raises.\<close>

definition unreachable_site :: nse_site where
  "unreachable_site = \<lparr>home_get = Inl ConnectionError, index_get = Inl ConnectionError\<rparr>"

text \<open>The site answers with \<^verbatim>\<open>{"data": [{"symbol": "TCS"}, {"symbol": "INFY"}]}\<close>.\<close>

definition two_symbol_site :: nse_site where
  "two_symbol_site =
     \<lparr>home_get = Inr (),
      index_get = Inr (JSON (JObj [(''data'',
        JArr [JObj [(''symbol'', JStr ''TCS'')], JObj [(''symbol'', JStr ''INFY'')]])]))\<rparr>"

text \<open>The site answers the index request with a page that is not JSON.\<close>

definition blocked_site :: nse_site where
  "blocked_site = \<lparr>home_get = Inr (), index_get = Inr NotJSON\<rparr>"

text \<open>The site answers with \<^verbatim>\<open>{"data": [{"symbol": 500325}]}\<close>: a number where the
  symbol string should be.\<close>

definition wrong_shape_site :: nse_site where
  "wrong_shape_site =
     \<lparr>home_get = Inr (),
      index_get = Inr (JSON (JObj [(''data'', JArr [JObj [(''symbol'', JNum 500325)]])]))\<rparr>"

text \<open>
  A run in double arithmetic over \<open>two_symbol_site\<close> in which the provider returns the scenario frame, one
  row of it with a missing close added in front, for \<^verbatim>\<open>TCS.NS\<close> and raises for every
  other symbol.
\<close>

definition raw_of :: "bar \<Rightarrow> raw_bar" where
  "raw_of b =
     \<lparr>raw_date = date b, raw_open = Some (open b), raw_high = Some (high b),
      raw_low = Some (low b), raw_close = Some (close b), raw_volume = Some (volume b)\<rparr>"

definition example_world :: world where
  "example_world =
     \<lparr>arithmetic = ieee,
      nse = two_symbol_site,
      yf_download = (\<lambda>i ticker.
         if ticker = ''TCS.NS''
         then Inr ((raw_of (hd scenario_frame))\<lparr>raw_close := None\<rparr> # map raw_of scenario_frame)
         else Inl OtherError),
      utcnow = ''2025-01-01T00:00:00''\<rparr>"

section \<open>Properties of detect\_markup\<close>

lemma length_tail_rows: "length (tail_rows n df) = min n (length df)"
  by (simp add: tail_rows_def)

lemma col_max_Max: "col \<noteq> [] \<Longrightarrow> col_max col = Some (Max (set col))"
  by (cases col) (simp_all add: col_max_def Max.set_eq_fold [symmetric] del: set_simps)


text \<open>Rules that evaluate \<open>binary64\<close> on a numeral.\<close>

lemma exponent_up_step: "2 \<le> x \<Longrightarrow> exponent_up x = exponent_up (x / 2) + 1"
  by simp

lemma exponent_up_stop: "x < 2 \<Longrightarrow> exponent_up x = 0"
  by simp

lemma exponent_down_step:
  "0 < x \<Longrightarrow> x < 1 \<Longrightarrow> exponent_down x = exponent_down (2 * x) - 1"
  by simp

lemma exponent_down_stop: "1 \<le> x \<Longrightarrow> exponent_down x = 0"
  by simp

lemmas binary64_eval = binary64_def exponent_def exponent_up_step exponent_up_stop
  exponent_down_step exponent_down_stop round_half_even_def Let_def

text \<open>The factor \<^verbatim>\<open>1 + 0.05\<close> and the multiplier \<^verbatim>\<open>1.5\<close> in double arithmetic.\<close>

lemma ieee_factor: "rnd ieee (1 + rnd ieee (5 / 100)) = 4728779608739021 / 2 ^ 52"
  by (simp add: ieee_def binary64_eval del: exponent_up.simps exponent_down.simps)

lemma ieee_multiplier: "rnd ieee (15 / 10) = 15 / 10"
  by (simp add: ieee_def binary64_eval del: exponent_up.simps exponent_down.simps)

text \<open>The two thresholds of the scenario in double arithmetic: 105 for a maximum high of
  100, and 14.5 for 29 volumes of 9 and one of 29.\<close>

lemma ieee_threshold_100: "rnd ieee (100 * (4728779608739021 / 2 ^ 52)) = 105"
  by (simp add: ieee_def binary64_eval del: exponent_up.simps exponent_down.simps)

lemma ieee_mean_volumes:
  "mean_of ieee
     [9, 9, 9, 9, 9, 9, 9, 9, 9, 9, 9, 9, 9, 9, 9, 9, 9, 9, 9, 9, 9, 9, 9, 9, 9, 9, 9, 9, 9, 29]
   = 5441849549739349 / 2 ^ 49"
  by (simp add: ieee_def binary64_eval del: exponent_up.simps exponent_down.simps)

lemma ieee_threshold_volumes: "rnd ieee (5441849549739349 / 2 ^ 49 * (15 / 10)) = 29 / 2"
  by (simp add: ieee_def binary64_eval del: exponent_up.simps exponent_down.simps)

text \<open>A frame made of a list of rows has every column, and so has each of its slices.\<close>

lemma getitem_frame_of: "getitem (frame_of bars) label = Inr (map (cell label) bars)"
  by (cases label) (simp_all add: getitem_def frame_of_def)

lemma getitem_slice_frame_of:
  "getitem (slice_tail n (frame_of bars)) label = Inr (map (cell label) (tail_rows n bars))"
  by (cases label) (simp_all add: getitem_def frame_of_def slice_tail_def)

lemma len_frame_of: "len (frame_of bars) = length bars"
  by (simp add: len_def frame_of_def)

lemma len_slice_frame_of: "len (slice_tail n (frame_of bars)) = min n (length bars)"
  by (simp add: len_def frame_of_def slice_tail_def length_tail_rows)

text \<open>The result on a frame of at least 30 rows with all its columns, in any arithmetic.\<close>

lemma detect_markup_df_long:
  assumes "30 \<le> length bars"
  shows "detect_markup_df ar (frame_of bars) =
     Inr (rnd ar (Max (set (map high (tail_rows 30 bars))) * rnd ar (1 + rnd ar (5 / 100)))
            < close (last bars)
        \<and> rnd ar (mean_of ar (map volume (tail_rows 30 bars)) * rnd ar (15 / 10))
            < volume (last bars)
        \<and> (non_decreasing (map high (tail_rows 10 bars))
           \<or> non_decreasing (map low (tail_rows 10 bars))))"
proof -
  from assms have ne: "bars \<noteq> []" by auto
  have len30: "length (tail_rows 30 bars) = 30" and len10: "length (tail_rows 10 bars) = 10"
    using assms by (simp_all add: length_tail_rows)
  have rne: "map high (tail_rows 30 bars) \<noteq> []" "map volume (tail_rows 30 bars) \<noteq> []"
    using len30 by auto
  have mx: "col_max (map high (tail_rows 30 bars))
      = Some (Max (set (map high (tail_rows 30 bars))))"
    using rne(1) by (rule col_max_Max)
  have mn: "col_mean ar (map volume (tail_rows 30 bars))
      = Some (mean_of ar (map volume (tail_rows 30 bars)))"
    using rne(2) by (simp add: col_mean_def)
  have lc: "iloc_last (map close bars) = Inr (close (last bars))"
    and lv: "iloc_last (map volume bars) = Inr (volume (last bars))"
    using ne by (simp_all add: iloc_last_def last_map)
  have win: "\<not> len (slice_tail 10 (frame_of bars)) < 2"
    using assms by (simp add: len_slice_frame_of)
  show ?thesis
    using assms win
    by (simp add: detect_markup_df_def detect_markup_try_def try_except_def bind_exn_def
        ACCUMULATION_RANGE_def BREAKOUT_THRESHOLD_def VOLUME_MULTIPLIER_def Let_def
        getitem_frame_of getitem_slice_frame_of len_frame_of
        mx mn lc lv nan_times_def gt_nan_def del: set_map)
qed


text \<open>
  A breakout found in an arithmetic that rounds is one without rounding too, as soon as
  rounding is monotone, leaves the last close (a double) as it is, and reads
  \<^verbatim>\<open>1 + 0.05\<close> as a factor of at least 1.05; so a frame without an exact breakout is
  not flagged in such an arithmetic either.
\<close>

lemma no_breakout_in_monotone_arithmetic:
  assumes len: "30 \<le> length bars"
    and mono: "\<And>x y. x \<le> y \<Longrightarrow> rnd ar x \<le> rnd ar y"
    and fixed: "rnd ar (close (last bars)) = close (last bars)"
    and factor: "105 / 100 \<le> rnd ar (1 + rnd ar (5 / 100))"
    and nonneg: "0 \<le> Max (set (map high (tail_rows 30 bars)))"
    and below: "close (last bars) \<le> Max (set (map high (tail_rows 30 bars))) * (105 / 100)"
  shows "detect_markup_df ar (frame_of bars) = Inr False"
proof -
  have "Max (set (map high (tail_rows 30 bars))) * (105 / 100)
      \<le> Max (set (map high (tail_rows 30 bars))) * rnd ar (1 + rnd ar (5 / 100))"
    using factor nonneg by (rule mult_left_mono)
  with below have "close (last bars)
      \<le> Max (set (map high (tail_rows 30 bars))) * rnd ar (1 + rnd ar (5 / 100))"
    by simp
  then have "rnd ar (close (last bars))
      \<le> rnd ar (Max (set (map high (tail_rows 30 bars))) * rnd ar (1 + rnd ar (5 / 100)))"
    by (rule mono)
  then have "\<not> rnd ar (Max (set (map high (tail_rows 30 bars))) * rnd ar (1 + rnd ar (5 / 100)))
      < close (last bars)"
    by (simp add: fixed)
  then show ?thesis
    by (simp only: detect_markup_df_long [OF len] simp_thms)
qed







text \<open>
  Claim C3.  A frame with fewer than 30 rows (the accumulation range) is never flagged:
  \<^verbatim>\<open>detect_markup\<close> returns False on it.
\<close>

theorem C3_short_frame_not_flagged:
  "length df < 30 \<Longrightarrow> detect_markup df = Inr False"
  by (simp add: detect_markup_def detect_markup_df_def detect_markup_try_def try_except_def
      ACCUMULATION_RANGE_def len_frame_of)

theorem C3_witness:
  "length (take 29 scenario_frame) < 30 \<and> detect_markup (take 29 scenario_frame) = Inr False"
proof -
  have h: "length (take 29 scenario_frame) < 30" by code_simp
  show ?thesis
    using C3_short_frame_not_flagged [OF h] h by simp
qed



subsection \<open>No exception leaves detect\_markup\<close>

lemma try_except_returns: "\<exists>v. try_except m (\<lambda>e. Inr d) = Inr v"
  by (cases m) (simp_all add: try_except_def)

text \<open>The body of the \<^verbatim>\<open>try\<close> block raises KeyError on a frame of 30 rows or more
  that lacks one of the four columns it reads.\<close>

lemma missing_column_raises:
  assumes "30 \<le> len df"
    and "High \<notin> set (df_columns df) \<or> Low \<notin> set (df_columns df)
       \<or> Close \<notin> set (df_columns df) \<or> Volume \<notin> set (df_columns df)"
  shows "detect_markup_try ar df = Inl KeyError"
proof -
  from assms(1) have ne: "df_rows df \<noteq> []"
    by (auto simp add: len_def)
  have win: "\<not> len (slice_tail 10 df) < 2"
    using assms(1) by (simp add: len_def slice_tail_def length_tail_rows)
  from assms(2) show ?thesis
    using assms(1) ne win
    by (auto simp add: detect_markup_try_def ACCUMULATION_RANGE_def Let_def getitem_def
        slice_tail_def bind_exn_def iloc_last_def)
qed

text \<open>
  Claim C6.  \<^verbatim>\<open>detect_markup\<close> never raises: on every frame, whichever columns it
  has, it returns a truth value, and whenever the body of its \<^verbatim>\<open>try\<close> block raises
  that value is False; on a frame without rows it returns False.
\<close>

theorem C6_detect_markup_never_raises:
  "detect_markup_df ar df \<noteq> Inl e
   \<and> (detect_markup_try ar df = Inl e \<longrightarrow> detect_markup_df ar df = Inr False)
   \<and> detect_markup_df ar \<lparr>df_columns = labels, df_rows = []\<rparr> = Inr False"
proof (intro conjI impI)
  show "detect_markup_df ar df \<noteq> Inl e"
    using try_except_returns [of "detect_markup_try ar df" False]
    by (auto simp add: detect_markup_df_def)
  show "detect_markup_df ar \<lparr>df_columns = labels, df_rows = []\<rparr> = Inr False"
    by (simp add: detect_markup_df_def detect_markup_try_def try_except_def
        ACCUMULATION_RANGE_def len_def)
  assume "detect_markup_try ar df = Inl e"
  then show "detect_markup_df ar df = Inr False"
    by (simp add: detect_markup_df_def try_except_def)
qed

theorem C6_witness:
  "detect_markup_try ieee no_high_frame = Inl KeyError
   \<and> detect_markup_df ieee no_high_frame = Inr False
   \<and> detect_markup_df ieee (frame_of []) = Inr False"
proof -
  have h: "detect_markup_try ieee no_high_frame = Inl KeyError"
    by (rule missing_column_raises) (simp_all add: no_high_frame_def len_def scenario_frame_def
        base_frame_def)
  from C6_detect_markup_never_raises [of ieee no_high_frame KeyError "[Open, High, Low, Close, Volume]"]
  show ?thesis using h by (simp add: frame_of_def)
qed

subsection \<open>The trend check is never skipped\<close>

text \<open>
  Claim C10.  On a frame of at least 30 rows the trend window has exactly 10 rows, so
  the branch for a window of fewer than 2 rows is not taken: the result is
  \<open>breakout \<and> vol_breakout \<and> (higher_highs \<or> higher_lows)\<close>, with the trend
  conjunct, in the program's arithmetic, whichever it is.
\<close>

theorem C10_trend_check_always_applies:
  assumes "30 \<le> length bars"
  shows "len (slice_tail 10 (frame_of bars)) = 10
    \<and> \<not> len (slice_tail 10 (frame_of bars)) < 2
    \<and> detect_markup_df ar (frame_of bars) =
       Inr (rnd ar (Max (set (map high (tail_rows 30 bars))) * rnd ar (1 + rnd ar (5 / 100)))
              < close (last bars)
          \<and> rnd ar (mean_of ar (map volume (tail_rows 30 bars)) * rnd ar (15 / 10))
              < volume (last bars)
          \<and> (non_decreasing (map high (tail_rows 10 bars))
             \<or> non_decreasing (map low (tail_rows 10 bars))))"
  using assms detect_markup_df_long [OF assms] by (simp add: len_slice_frame_of)

theorem C10_witness:
  "30 \<le> length choppy_frame
   \<and> len (slice_tail 10 (frame_of choppy_frame)) = 10
   \<and> rnd ieee (Max (set (map high (tail_rows 30 choppy_frame))) * rnd ieee (1 + rnd ieee (5 / 100)))
        < close (last choppy_frame)
   \<and> rnd ieee (mean_of ieee (map volume (tail_rows 30 choppy_frame)) * rnd ieee (15 / 10))
        < volume (last choppy_frame)
   \<and> \<not> non_decreasing (map high (tail_rows 10 choppy_frame))
   \<and> \<not> non_decreasing (map low (tail_rows 10 choppy_frame))
   \<and> detect_markup_df ieee (frame_of choppy_frame) = Inr False"
proof -
  have h: "30 \<le> length choppy_frame" by code_simp
  have mx: "Max (set (map high (tail_rows 30 choppy_frame))) = 100" by code_simp
  have cl: "close (last choppy_frame) = 106" by code_simp
  have vols: "map volume (tail_rows 30 choppy_frame)
      = [9, 9, 9, 9, 9, 9, 9, 9, 9, 9, 9, 9, 9, 9, 9, 9, 9, 9, 9, 9, 9, 9, 9, 9, 9, 9, 9, 9, 9, 29]"
    by code_simp
  have lv: "volume (last choppy_frame) = 29" by code_simp
  have "rnd ieee (100 * (4728779608739021 / 2 ^ 52)) < 106"
    unfolding ieee_threshold_100 by simp
  then have b: "rnd ieee (Max (set (map high (tail_rows 30 choppy_frame)))
              * rnd ieee (1 + rnd ieee (5 / 100)))
      < close (last choppy_frame)"
    by (simp only: mx cl ieee_factor)
  have "rnd ieee (5441849549739349 / 2 ^ 49 * (15 / 10)) < 29"
    unfolding ieee_threshold_volumes by simp
  then have v: "rnd ieee (mean_of ieee (map volume (tail_rows 30 choppy_frame))
              * rnd ieee (15 / 10))
      < volume (last choppy_frame)"
    by (simp only: vols lv ieee_multiplier ieee_mean_volumes)
  have hh: "\<not> non_decreasing (map high (tail_rows 10 choppy_frame))" by code_simp
  have hl: "\<not> non_decreasing (map low (tail_rows 10 choppy_frame))" by code_simp
  from C10_trend_check_always_applies [OF h, of ieee]
  show ?thesis using h b v hh hl by simp
qed

section \<open>Properties of the driver\<close>

lemma get_nse_symbol_list_returns: "\<exists>symbols. get_nse_symbol_list site = Inr symbols"
  unfolding get_nse_symbol_list_def by (rule try_except_returns)

text \<open>One iteration keeps the names of the list and the keys of the dict equal as sets.\<close>

lemma scan_symbol_keys:
  assumes "set (fst st) = fst ` set (snd st)"
  shows "set (fst (scan_symbol ar download i ticker st))
       = fst ` set (snd (scan_symbol ar download i ticker st))"
  using assms
  by (auto simp add: scan_symbol_def Let_def dom_update split: sum.splits)

lemma scan_loop_keys:
  "set (fst st) = fst ` set (snd st) \<Longrightarrow>
   set (fst (scan_loop ar download i tickers st))
     = fst ` set (snd (scan_loop ar download i tickers st))"
proof (induction tickers arbitrary: i st)
  case Nil
  then show ?case by simp
next
  case (Cons ticker tickers)
  from Cons.prems
  have "set (fst (scan_symbol ar download i ticker st))
      = fst ` set (snd (scan_symbol ar download i ticker st))"
    by (rule scan_symbol_keys)
  then show ?case
    by (simp add: Cons.IH)
qed

lemma main_returns:
  assumes "get_nse_symbol_list (nse w) = Inr symbols"
  shows "main w =
    Inr (\<lparr>timestamp = utcnow w @ ''Z'',
          total_scanned = length symbols,
          markup_count = length (fst (scan_loop (arithmetic w) (yf_download w) 1 symbols ([], []))),
          markup_candidates = fst (scan_loop (arithmetic w) (yf_download w) 1 symbols ([], []))\<rparr>,
         snd (scan_loop (arithmetic w) (yf_download w) 1 symbols ([], [])))"
  by (simp add: main_def bind_exn_def assms Let_def)

text \<open>
  Claim C7.  Every run of the driver ends with a summary and a markup dataset such that
  the names in \<^verbatim>\<open>markup_candidates\<close> and the keys of the dataset are the same set.
\<close>

theorem C7_candidates_are_dataset_keys:
  "\<exists>summary data. main w = Inr (summary, data)
     \<and> set (markup_candidates summary) = fst ` set data"
proof -
  obtain symbols where s: "get_nse_symbol_list (nse w) = Inr symbols"
    using get_nse_symbol_list_returns by blast
  have "set (fst (scan_loop (arithmetic w) (yf_download w) 1 symbols ([], [])))
      = fst ` set (snd (scan_loop (arithmetic w) (yf_download w) 1 symbols ([], [])))"
    by (rule scan_loop_keys) simp
  then show ?thesis
    unfolding main_returns [OF s] by simp
qed

text \<open>
  Claim C8.  In the summary of every run, \<^verbatim>\<open>markup_count\<close> is the length of
  \<^verbatim>\<open>markup_candidates\<close> and \<^verbatim>\<open>total_scanned\<close> is the length of the symbol list the
  symbol source returned, whatever the price provider did on each symbol.
\<close>

theorem C8_summary_counts:
  "\<exists>summary data symbols. main w = Inr (summary, data)
     \<and> get_nse_symbol_list (nse w) = Inr symbols
     \<and> markup_count summary = length (markup_candidates summary)
     \<and> total_scanned summary = length symbols"
proof -
  obtain symbols where s: "get_nse_symbol_list (nse w) = Inr symbols"
    using get_nse_symbol_list_returns by blast
  show ?thesis
    unfolding main_returns [OF s] using s by simp
qed

section \<open>Properties of get\_nse\_symbol\_list\<close>

lemma fetch_symbols_raises:
  assumes "home_get site = Inl e \<or> index_get site = Inl e \<or> index_get site = Inr NotJSON"
  shows "\<exists>e'. fetch_symbols site = Inl e'"
  using assms
  by (cases "home_get site")
     (auto simp add: fetch_symbols_def bind_exn_def response_json_def)

text \<open>A JSON object without a \<^verbatim>\<open>data\<close> field: the default \<^verbatim>\<open>[]\<close> is iterated and
  nothing raises.\<close>

lemma fetch_symbols_no_data:
  assumes "home_get site = Inr ()" and "index_get site = Inr (JSON (JObj items))"
    and "map_of items ''data'' = None"
  shows "fetch_symbols site = Inr []"
  using assms
  by (simp add: fetch_symbols_def bind_exn_def response_json_def dict_get_def iterate_def)

text \<open>
  Claim C9 as stated fails on a payload that is JSON but not the expected listing.  The
  site of \<open>no_data_site\<close> answers \<^verbatim>\<open>{"error": "blocked"}\<close>: \<^verbatim>\<open>data.get("data", [])\<close>
  is the default \<^verbatim>\<open>[]\<close>, nothing raises, and the function returns the empty list, not
  the fallback list.
\<close>

theorem C9_no_data_counterexample:
  "get_nse_symbol_list no_data_site = Inr [] \<and> get_nse_symbol_list no_data_site \<noteq> Inr FALLBACK"
  by (simp add: get_nse_symbol_list_def try_except_def fetch_symbols_def bind_exn_def
      no_data_site_def response_json_def dict_get_def iterate_def FALLBACK_def)

text \<open>
  Claim C9, amended.  \<^verbatim>\<open>get_nse_symbol_list\<close> never raises.  Whenever the fetch raises
  (either request fails, the response is not JSON, or extracting the symbols from the
  payload raises) it returns the fixed fallback list, which has exactly 5 symbols, each
  with the exchange suffix; so it does whenever the site cannot be reached.  Whenever
  the fetch raises nothing it returns the list of symbols extracted; on a payload that
  is a JSON object without a \<^verbatim>\<open>data\<close> field that list is empty.
\<close>

theorem C9_fallback_when_fetch_raises:
  "(\<exists>symbols. get_nse_symbol_list site = Inr symbols)
   \<and> (home_get site = Inl e \<or> index_get site = Inl e \<or> index_get site = Inr NotJSON
        \<or> fetch_symbols site = Inl e
      \<longrightarrow> get_nse_symbol_list site = Inr FALLBACK)
   \<and> length FALLBACK = 5
   \<and> FALLBACK = map (\<lambda>name. name @ ''.NS'') [''RELIANCE'', ''TCS'', ''HDFCBANK'', ''INFY'', ''LT'']
   \<and> (fetch_symbols site = Inr symbols \<longrightarrow> get_nse_symbol_list site = Inr symbols)
   \<and> (home_get site = Inr () \<and> index_get site = Inr (JSON (JObj items))
        \<and> map_of items ''data'' = None
      \<longrightarrow> get_nse_symbol_list site = Inr [])"
proof (intro conjI impI)
  show "\<exists>symbols. get_nse_symbol_list site = Inr symbols"
    unfolding get_nse_symbol_list_def by (rule try_except_returns)
  show "length FALLBACK = 5"
    by (simp add: FALLBACK_def)
  show "FALLBACK = map (\<lambda>name. name @ ''.NS'') [''RELIANCE'', ''TCS'', ''HDFCBANK'', ''INFY'', ''LT'']"
    by (simp add: FALLBACK_def)
next
  assume "home_get site = Inl e \<or> index_get site = Inl e \<or> index_get site = Inr NotJSON
        \<or> fetch_symbols site = Inl e"
  then have "\<exists>e'. fetch_symbols site = Inl e'"
    using fetch_symbols_raises [of site e] by blast
  then show "get_nse_symbol_list site = Inr FALLBACK"
    by (auto simp add: get_nse_symbol_list_def try_except_def)
next
  assume "fetch_symbols site = Inr symbols"
  then show "get_nse_symbol_list site = Inr symbols"
    by (simp add: get_nse_symbol_list_def try_except_def)
next
  assume "home_get site = Inr () \<and> index_get site = Inr (JSON (JObj items))
        \<and> map_of items ''data'' = None"
  then have "fetch_symbols site = Inr []"
    by (simp add: fetch_symbols_no_data)
  then show "get_nse_symbol_list site = Inr []"
    by (simp add: get_nse_symbol_list_def try_except_def)
qed

theorem C9_witness:
  "home_get unreachable_site = Inl ConnectionError
   \<and> get_nse_symbol_list unreachable_site = Inr FALLBACK
   \<and> index_get blocked_site = Inr NotJSON
   \<and> get_nse_symbol_list blocked_site = Inr FALLBACK
   \<and> fetch_symbols wrong_shape_site = Inl TypeError
   \<and> get_nse_symbol_list wrong_shape_site = Inr FALLBACK
   \<and> fetch_symbols two_symbol_site = Inr [''TCS.NS'', ''INFY.NS'']
   \<and> get_nse_symbol_list two_symbol_site = Inr [''TCS.NS'', ''INFY.NS'']
   \<and> home_get no_data_site = Inr ()
   \<and> index_get no_data_site = Inr (JSON (JObj [(''error'', JStr ''blocked'')]))
   \<and> map_of [(''error'', JStr ''blocked'')] ''data'' = None
   \<and> get_nse_symbol_list no_data_site = Inr []"
proof -
  have h1: "home_get unreachable_site = Inl ConnectionError"
    by (simp add: unreachable_site_def)
  have h2: "index_get blocked_site = Inr NotJSON"
    by (simp add: blocked_site_def)
  have h3: "fetch_symbols wrong_shape_site = Inl TypeError"
    by code_simp
  have h4: "fetch_symbols two_symbol_site = Inr [''TCS.NS'', ''INFY.NS'']"
    by code_simp
  have h5: "home_get no_data_site = Inr ()"
    "index_get no_data_site = Inr (JSON (JObj [(''error'', JStr ''blocked'')]))"
    "map_of [(''error'', JStr ''blocked'')] ''data'' = None"
    by (simp_all add: no_data_site_def)
  from C9_fallback_when_fetch_raises [of unreachable_site ConnectionError]
    C9_fallback_when_fetch_raises [of blocked_site ConnectionError]
    C9_fallback_when_fetch_raises [of wrong_shape_site TypeError]
    C9_fallback_when_fetch_raises [of two_symbol_site _ "[''TCS.NS'', ''INFY.NS'']"]
    C9_fallback_when_fetch_raises [of no_data_site _ _ "[(''error'', JStr ''blocked'')]"]
  show ?thesis using h1 h2 h3 h4 h5 by simp
qed

section \<open>Example runs\<close>

lemma two_symbol_site_symbols:
  "get_nse_symbol_list two_symbol_site = Inr [''TCS.NS'', ''INFY.NS'']"
  by code_simp

lemma str_replace_examples:
  "str_replace ''.NS'' [] ''TCS.NS'' = ''TCS''"
  "str_replace ''.NS'' [] ''A.NS.NSB.N.NSS'' = ''AB.NS''"
  by code_simp+

text \<open>The frame of the scenario is flagged in double arithmetic.\<close>

lemma scenario_flagged_in_doubles: "detect_markup_df ieee (frame_of scenario_frame) = Inr True"
proof -
  have h: "30 \<le> length scenario_frame" by code_simp
  have mx: "Max (set (map high (tail_rows 30 scenario_frame))) = 100" by code_simp
  have cl: "close (last scenario_frame) = 106" by code_simp
  have vols: "map volume (tail_rows 30 scenario_frame)
      = [9, 9, 9, 9, 9, 9, 9, 9, 9, 9, 9, 9, 9, 9, 9, 9, 9, 9, 9, 9, 9, 9, 9, 9, 9, 9, 9, 9, 9, 29]"
    by code_simp
  have lv: "volume (last scenario_frame) = 29" by code_simp
  have "rnd ieee (100 * (4728779608739021 / 2 ^ 52)) < 106"
    unfolding ieee_threshold_100 by simp
  then have b: "rnd ieee (Max (set (map high (tail_rows 30 scenario_frame)))
              * rnd ieee (1 + rnd ieee (5 / 100)))
      < close (last scenario_frame)"
    by (simp only: mx cl ieee_factor)
  have "rnd ieee (5441849549739349 / 2 ^ 49 * (15 / 10)) < 29"
    unfolding ieee_threshold_volumes by simp
  then have v: "rnd ieee (mean_of ieee (map volume (tail_rows 30 scenario_frame))
              * rnd ieee (15 / 10))
      < volume (last scenario_frame)"
    by (simp only: vols lv ieee_multiplier ieee_mean_volumes)
  have hh: "non_decreasing (map high (tail_rows 10 scenario_frame))" by code_simp
  show ?thesis
    unfolding detect_markup_df_long [OF h] using b v hh by simp
qed

lemma example_run:
  "main example_world =
     Inr (\<lparr>timestamp = ''2025-01-01T00:00:00Z'', total_scanned = 2, markup_count = 1,
           markup_candidates = [''TCS'']\<rparr>,
          [(''TCS'', scenario_frame)])"
proof -
  have d: "dropna ((raw_of (hd scenario_frame))\<lparr>raw_close := None\<rparr> # map raw_of scenario_frame)
      = scenario_frame" by code_simp
  have n: "str_replace ''.NS'' [] ''TCS.NS'' = ''TCS''" by code_simp
  show ?thesis
    by (simp add: main_def example_world_def bind_exn_def two_symbol_site_symbols
        scan_symbol_def Let_def d n scenario_flagged_in_doubles)
qed

text \<open>Reading decimal literals and rounding a product in double arithmetic.\<close>

lemma binary64_examples:
  "binary64 (5 / 100) = 3602879701896397 / 2 ^ 56"
  "binary64 (1 + binary64 (5 / 100)) = 4728779608739021 / 2 ^ 52"
  "binary64 (15 / 10) = 15 / 10"
  "binary64 (1092 / 10) = 7684266864200909 / 2 ^ 46"
  "binary64 (104 * binary64 (1 + binary64 (5 / 100))) = binary64 (1092 / 10)"
  "binary64 (1 / 3) = 6004799503160661 / 2 ^ 54"
  "binary64 (2 ^ 53 + 1) = 2 ^ 53"
  "binary64 (2 ^ 53 + 3) = 2 ^ 53 + 4"
  by (simp_all add: binary64_eval del: exponent_up.simps exponent_down.simps)

text \<open>
  Without rounding, \<open>rounding_frame\<close> is flagged; so is the frame of the scenario in
  the specification's section 8 with highs that rise to 100 over the last 10 rows.  A
  frame whose highs rise above 100 there, and a frame whose volumes are all 0, are not.
\<close>

lemma exact_examples:
  "detect_markup rounding_frame = Inr True"
  "detect_markup scenario_frame = Inr True"
  "detect_markup rising_frame = Inr False"
  "detect_markup zero_volume_frame = Inr False"
  by code_simp+

end
